theory Spec2Isabelle
  imports Main "HOL-Library.Word"
begin

unbundle bit_operations_syntax

section \<open>The chatbot backend of \<^verbatim>\<open>src/backend/run.py\<close>\<close>

text \<open>
  The module is a Flask application with two routes. \<^verbatim>\<open>GET /start_chat\<close> hands out
  a session identifier; \<^verbatim>\<open>POST /chat\<close> reads the session's stored history, asks a
  retrieval chain for an answer, appends the exchange to the history, keeps the last 50
  entries and writes them back.

  The collaborators the module calls but does not define (the retrieval chain, the
  database behind \<^verbatim>\<open>app.data\<close>, the clock, the random source of
  \<^verbatim>\<open>uuid.uuid4\<close>) are inputs of the model: what each of them answers during one
  request is a field of the record \<open>env\<close>. Everything the module does to the outside
  (a log line, a call of a collaborator) is appended to a trace, so that a statement such
  as "the chain was not invoked" is a statement about that trace.
\<close>

subsection \<open>Python values\<close>

text \<open>
  Exceptions that \<^verbatim>\<open>except Exception\<close> catches. An exception is known by its
  class and by the text that \<^verbatim>\<open>str(e)\<close> gives for it, which is what
  \<^verbatim>\<open>f"{e}"\<close> prints; \<open>Exception\<close> stands for any other subclass a collaborator
  raises (a network error, a library error). Interpreter signals that derive from
  \<^verbatim>\<open>BaseException\<close> only (\<^verbatim>\<open>KeyboardInterrupt\<close>,
  \<^verbatim>\<open>SystemExit\<close>) are not failures of a call and are not modelled.
\<close>

datatype error =
    ValueError string
  | KeyError string
  | AttributeError string
  | Exception string

fun str_error :: "error \<Rightarrow> string" where
  "str_error (ValueError text) = text"
| "str_error (KeyError text) = text"
| "str_error (AttributeError text) = text"
| "str_error (Exception text) = text"

text \<open>A name between single quotes, as Python's messages show it.\<close>

definition quoted :: "string \<Rightarrow> string" where
  "quoted name = [CHR 0x27] @ name @ [CHR 0x27]"

text \<open>
  A parsed JSON value, as \<^verbatim>\<open>request.json\<close> returns it. The values of an object
  are strings, as the interface declares them (\<^verbatim>\<open>{"chat_id": string,
  "user_message": string}\<close>, either key possibly absent). A request whose body Flask
  cannot read as JSON is answered by Flask inside \<^verbatim>\<open>request.json\<close> and never
  reaches the next line of the route.
\<close>

datatype json =
    JNull
  | JBool bool
  | JNumber int
  | JString string
  | JArray "json list"
  | JObject "string \<rightharpoonup> string"

text \<open>The name of the Python type of a parsed value.\<close>

fun type_name :: "json \<Rightarrow> string" where
  "type_name JNull = ''NoneType''"
| "type_name (JBool b) = ''bool''"
| "type_name (JNumber n) = ''int''"
| "type_name (JString s) = ''str''"
| "type_name (JArray xs) = ''list''"
| "type_name (JObject obj) = ''dict''"

text \<open>
  \<^verbatim>\<open>data.get\<close>: the bound method of a dictionary; on any other parsed value the
  attribute does not exist and the lookup raises \<^verbatim>\<open>AttributeError\<close>.
\<close>

fun get_method :: "json \<Rightarrow> error + (string \<rightharpoonup> string)" where
  "get_method (JObject obj) = Inr obj"
| "get_method data =
     Inl (AttributeError (quoted (type_name data) @ '' object has no attribute ''
                          @ quoted ''get''))"

text \<open>
  \<^verbatim>\<open>not x\<close> for a value that is \<^verbatim>\<open>None\<close> or a string: true for
  \<^verbatim>\<open>None\<close> and for the empty string.
\<close>

fun py_not :: "string option \<Rightarrow> bool" where
  "py_not None = True"
| "py_not (Some s) = (s = [])"

text \<open>
  The slice \<^verbatim>\<open>xs[i:]\<close>: a negative start counts from the end, and a start
  outside the list is clamped to it.
\<close>

definition slice_from :: "int \<Rightarrow> 'a list \<Rightarrow> 'a list" where
  "slice_from i xs =
     (let n = int (length xs);
          start = (if i < 0 then max (n + i) 0 else min i n)
      in drop (nat start) xs)"

text \<open>
  \<^verbatim>\<open>x or []\<close> for a value that is \<^verbatim>\<open>None\<close> or a list: the list when it is
  not empty, the right operand otherwise.
\<close>

fun or_empty :: "'a list option \<Rightarrow> 'a list" where
  "or_empty None = []"
| "or_empty (Some xs) = (if xs = [] then [] else xs)"

subsection \<open>Data model\<close>

text \<open>
  One entry of a chat history: the dictionary with the keys \<^verbatim>\<open>timestamp\<close>,
  \<^verbatim>\<open>user_message\<close> and \<^verbatim>\<open>bot_response\<close> that
  \<^verbatim>\<open>process_user_message\<close> builds.
\<close>

record exchange =
  ex_timestamp :: string
  ex_user_message :: string
  ex_bot_response :: string

type_synonym history = "exchange list"

text \<open>The stored histories, by session identifier.\<close>

type_synonym chat_store = "string \<rightharpoonup> history"

datatype level = INFO | WARNING | ERROR

text \<open>
  What the module does to the outside: a line of the logger, or a call of a
  collaborator with its arguments.
\<close>

datatype event =
    Log level string
  | Invoke string history
  | Retrieve string
  | Store string history
  | Create_client string string
  | Acquire_lock
  | Release_lock
  | ChatGroq
  | Reload_vector_store
  | From_llm

text \<open>
  The state the module runs in: the global \<^verbatim>\<open>model\<close> (\<open>None\<close> until loaded;
  an instance is known by its identity), the database, and the trace so far.
\<close>

record world =
  model :: "nat option"
  db :: chat_store
  trace :: "event list"

definition emit :: "event \<Rightarrow> world \<Rightarrow> world" where
  "emit ev w = w\<lparr>trace := trace w @ [ev]\<rparr>"

text \<open>
  What the collaborators answer during one request: the retrieval chain's
  \<^verbatim>\<open>invoke\<close> (an exception, or the dictionary it returns) for each question and
  history, the clock reading as \<^verbatim>\<open>strftime\<close> formats it, whether the database
  read or write raises, and the 16 bytes \<^verbatim>\<open>uuid4\<close> draws from
  \<^verbatim>\<open>os.urandom\<close>, as one big-endian number.
\<close>

record env =
  invoke :: "string \<Rightarrow> history \<Rightarrow> error + (string \<rightharpoonup> string)"
  now :: string
  retrieve_fault :: "error option"
  store_fault :: "error option"
  urandom :: "128 word"

subsection \<open>The database calls of \<^verbatim>\<open>app.data\<close>\<close>

text \<open>
  Modelled from the spec: \<^verbatim>\<open>app.data.retrieve_chat_history\<close> is imported by
  \<^verbatim>\<open>run.py\<close> and its source is not available. The spec: it "fetches the stored
  exchange list for a session; returns empty sequence if none exists (not an error)".
  A failure of the database is the exception the environment gives.
\<close>

definition retrieve_chat_history ::
  "env \<Rightarrow> string \<Rightarrow> world \<Rightarrow> (error + history option) \<times> world" where
  "retrieve_chat_history e chat_id w =
     (let w1 = emit (Retrieve chat_id) w in
      case retrieve_fault e of
        Some err \<Rightarrow> (Inl err, w1)
      | None \<Rightarrow>
          (case db w1 chat_id of
             None \<Rightarrow> (Inr (Some []), w1)
           | Some h \<Rightarrow> (Inr (Some h), w1)))"

text \<open>
  Modelled from the spec: \<^verbatim>\<open>app.data.store_chat_history\<close> is imported by
  \<^verbatim>\<open>run.py\<close> and its source is not available. The spec: it "persists the full
  updated list" for the session. A write that raises is taken to have stored nothing.
\<close>

definition store_chat_history ::
  "env \<Rightarrow> string \<Rightarrow> history \<Rightarrow> world \<Rightarrow> (error + unit) \<times> world" where
  "store_chat_history e chat_id chat_history w =
     (let w1 = emit (Store chat_id chat_history) w in
      case store_fault e of
        Some err \<Rightarrow> (Inl err, w1)
      | None \<Rightarrow> (Inr (), w1\<lparr>db := (db w1)(chat_id \<mapsto> chat_history)\<rparr>))"

subsection \<open>Generating the answer\<close>

definition apology :: string where
  "apology = ''Sorry, I encountered an error while processing your request.''"

text \<open>
  The body of the \<^verbatim>\<open>try\<close> of \<^verbatim>\<open>generate_chatbot_response\<close>: the call of
  the chain, then \<^verbatim>\<open>response["answer"]\<close>, which raises
  \<^verbatim>\<open>KeyError('answer')\<close> when the key is absent; its text is the key between
  single quotes.
\<close>

definition invoke_answer :: "env \<Rightarrow> string \<Rightarrow> history \<Rightarrow> error + string" where
  "invoke_answer e user_message chat_history =
     (case invoke e user_message chat_history of
        Inl err \<Rightarrow> Inl err
      | Inr response \<Rightarrow>
          (case response ''answer'' of
             None \<Rightarrow> Inl (KeyError (quoted ''answer''))
           | Some answer \<Rightarrow> Inr answer))"

definition generate_chatbot_response ::
  "env \<Rightarrow> string \<Rightarrow> history \<Rightarrow> world \<Rightarrow> string \<times> world" where
  "generate_chatbot_response e user_message chat_history w =
     (let w1 = emit (Invoke user_message chat_history) w in
      case invoke_answer e user_message chat_history of
        Inr answer \<Rightarrow> (answer, w1)
      | Inl err \<Rightarrow>
          (apology,
           emit (Log ERROR (''Error generating chatbot response: '' @ str_error err)) w1))"

subsection \<open>Appending, truncating and storing\<close>

text \<open>
  \<^verbatim>\<open>process_user_message\<close>. The \<^verbatim>\<open>append\<close> changes the caller's list in
  place and the slice then makes a new list; the caller (\<^verbatim>\<open>chat\<close>) does not read
  its own list again, so the model returns the new list only.
\<close>

definition process_user_message ::
  "env \<Rightarrow> string \<Rightarrow> string \<Rightarrow> history \<Rightarrow> world \<Rightarrow> (string \<times> history) \<times> world" where
  "process_user_message e chat_id user_message chat_history w =
     (let (bot_response, w1) = generate_chatbot_response e user_message chat_history w;
          timestamp = now e;
          appended = chat_history @
            [\<lparr>ex_timestamp = timestamp, ex_user_message = user_message,
              ex_bot_response = bot_response\<rparr>];
          chat_history' = slice_from (- 50) appended;
          w3 = (case store_chat_history e chat_id chat_history' w1 of
                  (Inr _, w2) \<Rightarrow>
                    emit (Log INFO (''Chat history updated for chat_id: '' @ chat_id)) w2
                | (Inl err, w2) \<Rightarrow>
                    emit (Log ERROR (''Error storing chat history for chat_id '' @ chat_id
                                     @ '': '' @ str_error err)) w2)
      in ((bot_response, chat_history'), w3))"

subsection \<open>Session identifiers\<close>

text \<open>
  \<^verbatim>\<open>uuid.uuid4()\<close> is \<^verbatim>\<open>UUID(bytes=os.urandom(16), version=4)\<close>: the 128
  random bits with the variant bits (63 and 62) set to \<open>10\<close> and the version bits
  (79 to 76) set to 4.
\<close>

definition uuid4 :: "128 word \<Rightarrow> 128 word" where
  "uuid4 r =
     (let i1 = r AND NOT (push_bit 48 0xc000);
          i2 = i1 OR push_bit 48 0x8000;
          i3 = i2 AND NOT (push_bit 64 0xf000);
          i4 = i3 OR push_bit 76 4
      in i4)"

text \<open>The digit of a value below 16; it is only applied to four-bit values.\<close>

definition hex_digit :: "nat \<Rightarrow> char" where
  "hex_digit d = ''0123456789abcdef'' ! d"

text \<open>\<^verbatim>\<open>'%032x' % n\<close>: 32 hexadecimal digits, the most significant first.\<close>

definition hex32 :: "128 word \<Rightarrow> string" where
  "hex32 n = map (\<lambda>k. hex_digit (unat (drop_bit (4 * k) n AND 0xf))) (rev [0..<32])"

text \<open>
  \<^verbatim>\<open>str(u)\<close> for a UUID: the digits in groups of 8, 4, 4, 4 and 12, joined by
  hyphens.
\<close>

definition str_uuid :: "128 word \<Rightarrow> string" where
  "str_uuid u =
     (let x = hex32 u
      in take 8 x @ ''-'' @ take 4 (drop 8 x) @ ''-'' @ take 4 (drop 12 x) @ ''-''
         @ take 4 (drop 16 x) @ ''-'' @ drop 20 x)"

definition start_new_chat :: "env \<Rightarrow> world \<Rightarrow> string \<times> world" where
  "start_new_chat e w =
     (let chat_id = str_uuid (uuid4 (urandom e))
      in (chat_id, emit (Log INFO (''New chat session started with ID: '' @ chat_id)) w))"

subsection \<open>The routes\<close>

text \<open>
  What \<^verbatim>\<open>jsonify\<close> is given: \<^verbatim>\<open>{"chat_id": ...}\<close>,
  \<^verbatim>\<open>{"error": ...}\<close>, or \<^verbatim>\<open>{"bot_response": ..., "chat_history": ...}\<close>;
  and the page Flask itself sends when an exception leaves a route. A response is the
  body with the status code.
\<close>

datatype body =
    Chat_id string
  | Error string
  | Reply string history
  | Internal_server_error

type_synonym response = "body \<times> nat"

definition start_chat :: "env \<Rightarrow> world \<Rightarrow> response \<times> world" where
  "start_chat e w =
     (let (chat_id, w1) = start_new_chat e w in ((Chat_id chat_id, 200), w1))"

text \<open>
  \<^verbatim>\<open>chat\<close>. \<open>data\<close> is what \<^verbatim>\<open>request.json\<close> returned. The two
  \<^verbatim>\<open>data.get\<close> calls stand before the \<^verbatim>\<open>try\<close>: when \<open>data\<close> is not
  an object, the first of them raises and the exception leaves the route. Inside the
  \<^verbatim>\<open>try\<close>, only \<^verbatim>\<open>retrieve_chat_history\<close> can raise:
  \<^verbatim>\<open>process_user_message\<close> catches what its own calls raise.
\<close>

definition chat :: "env \<Rightarrow> json \<Rightarrow> world \<Rightarrow> (error + response) \<times> world" where
  "chat e data w =
     (case get_method data of
        Inl err \<Rightarrow> (Inl err, w)
      | Inr get \<Rightarrow>
          (let chat_id = get ''chat_id'';
               user_message = get ''user_message''
           in if py_not chat_id \<or> py_not user_message then
                (Inr (Error ''chat_id and user_message are required'', 400),
                 emit (Log WARNING ''chat_id or user_message is missing in request.'') w)
              else
                (case retrieve_chat_history e (the chat_id) w of
                   (Inl err, w1) \<Rightarrow>
                     (Inr (Error ''An error occurred while processing your request.'', 500),
                      emit (Log ERROR (''Error in chat route: '' @ str_error err)) w1)
                 | (Inr stored, w1) \<Rightarrow>
                     (let chat_history = or_empty stored;
                          w2 = (if chat_history = [] then
                                  emit (Log WARNING (''No chat history found for chat_id: ''
                                    @ the chat_id @ ''. Starting a new session.'')) w1
                                else w1);
                          ((bot_response, updated_chat_history), w3) =
                             process_user_message e (the chat_id) (the user_message)
                               chat_history w2
                      in (Inr (Reply bot_response updated_chat_history, 200), w3)))))"

subsection \<open>Start of the module\<close>

text \<open>
  What the environment and the libraries answer while the module is loaded: the
  environment variables after \<^verbatim>\<open>load_dotenv()\<close>, whether \<^verbatim>\<open>create_client\<close>
  raises, the instance \<^verbatim>\<open>ChatGroq(...)\<close> constructs or the exception it raises,
  and whether loading the vector store or building the chain raises.
\<close>

record startup =
  getenv :: "string \<rightharpoonup> string"
  create_client_fault :: "error option"
  new_ChatGroq :: "error + nat"
  vector_store_fault :: "error option"
  from_llm_fault :: "error option"

text \<open>
  \<^verbatim>\<open>load_model\<close>, as one thread runs it: the first test of the global, then,
  holding \<^verbatim>\<open>model_lock\<close>, the second test and the construction. The
  \<^verbatim>\<open>with\<close> releases the lock on both ways out, before the \<^verbatim>\<open>except\<close>
  logs and raises again. The value returned is the global as it is at the end.
\<close>

definition load_model :: "startup \<Rightarrow> world \<Rightarrow> (error + nat) \<times> world" where
  "load_model s w =
     (case model w of
        Some m \<Rightarrow> (Inr m, w)
      | None \<Rightarrow>
          (let w1 = emit Acquire_lock w in
           case model w1 of
             Some m \<Rightarrow> (Inr m, emit Release_lock w1)
           | None \<Rightarrow>
               (let w2 = emit ChatGroq w1 in
                case new_ChatGroq s of
                  Inr m \<Rightarrow>
                    (Inr m,
                     emit Release_lock
                       (emit (Log INFO ''Model loaded successfully.'') (w2\<lparr>model := Some m\<rparr>)))
                | Inl err \<Rightarrow>
                    (Inl err,
                     emit (Log ERROR (''Error loading model: '' @ str_error err))
                       (emit Release_lock w2)))))"

definition not_set :: string where
  "not_set = ''Supabase URL and key are not set in the environment variables.''"

text \<open>
  Lines 68 to 75: the model, the vector store and the chain, in one \<^verbatim>\<open>try\<close>
  whose \<^verbatim>\<open>except\<close> logs and raises again.
\<close>

definition init_chain :: "startup \<Rightarrow> world \<Rightarrow> (error + unit) \<times> world" where
  "init_chain s w =
     (let (r, w1) =
        (case load_model s w of
           (Inl err, w1) \<Rightarrow> (Inl err, w1)
         | (Inr m, w1) \<Rightarrow>
             (let w2 = emit Reload_vector_store w1 in
              case vector_store_fault s of
                Some err \<Rightarrow> (Inl err, w2)
              | None \<Rightarrow>
                  (let w3 = emit From_llm w2 in
                   case from_llm_fault s of
                     Some err \<Rightarrow> (Inl err, w3)
                   | None \<Rightarrow>
                       (Inr (), emit (Log INFO ''Vector store and retrieval chain initialized.'') w3))))
      in case r of
           Inr u \<Rightarrow> (Inr u, w1)
         | Inl err \<Rightarrow>
             (Inl err,
              emit (Log ERROR (''Error initializing model or vector store: '' @ str_error err)) w1))"

text \<open>
  The statements of the module up to the creation of the Flask application, in order:
  the test of the two environment variables, \<^verbatim>\<open>create_client\<close>, the global
  \<^verbatim>\<open>model = None\<close>, then the model, the vector store and the chain. An exception
  that leaves one of them ends the module: nothing after it runs.
\<close>

definition module_init :: "startup \<Rightarrow> world \<Rightarrow> (error + unit) \<times> world" where
  "module_init s w =
     (let SUPABASE_URL = getenv s ''SUPABASE_URL'';
          SUPABASE_KEY = getenv s ''SUPABASE_KEY''
      in if py_not SUPABASE_URL \<or> py_not SUPABASE_KEY then
           (Inl (ValueError not_set), emit (Log ERROR not_set) w)
         else
           (let w1 = emit (Create_client (the SUPABASE_URL) (the SUPABASE_KEY)) w in
            case create_client_fault s of
              Some err \<Rightarrow> (Inl err, w1)
            | None \<Rightarrow> init_chain s (w1\<lparr>model := None\<rparr>)))"

subsection \<open>The running application\<close>

datatype request = GET_start_chat | POST_chat json

text \<open>
  Flask calls the route of the request; an exception that leaves the route is answered
  with status 500 and Flask's own page.
\<close>

definition handle :: "env \<Rightarrow> request \<Rightarrow> world \<Rightarrow> response \<times> world" where
  "handle e req w =
     (case req of
        GET_start_chat \<Rightarrow> start_chat e w
      | POST_chat data \<Rightarrow>
          (case chat e data w of
             (Inr r, w1) \<Rightarrow> (r, w1)
           | (Inl err, w1) \<Rightarrow> ((Internal_server_error, 500), w1)))"

text \<open>
  The requests handled one after the other, each with what the collaborators answer
  during it.
\<close>

fun serve :: "(env \<times> request) list \<Rightarrow> world \<Rightarrow> response list \<times> world" where
  "serve [] w = ([], w)"
| "serve ((e, req) # rest) w =
     (let (r, w1) = handle e req w;
          (rs, w2) = serve rest w1
      in (r # rs, w2))"

text \<open>
  The process: the module is loaded, and only when that has not raised does the
  application serve requests.
\<close>

definition main :: "startup \<Rightarrow> (env \<times> request) list \<Rightarrow> world \<Rightarrow> (error + response list) \<times> world" where
  "main s reqs w =
     (case module_init s w of
        (Inl err, w1) \<Rightarrow> (Inl err, w1)
      | (Inr _, w1) \<Rightarrow> (let (rs, w2) = serve reqs w1 in (Inr rs, w2)))"

subsection \<open>Notions used in the statements\<close>

text \<open>
  The answer \<^verbatim>\<open>generate_chatbot_response\<close> returns, and the entry
  \<^verbatim>\<open>process_user_message\<close> appends, as functions of what the collaborators
  answer.
\<close>

definition answer_for :: "env \<Rightarrow> string \<Rightarrow> history \<Rightarrow> string" where
  "answer_for e user_message chat_history =
     (case invoke_answer e user_message chat_history of Inr answer \<Rightarrow> answer | Inl err \<Rightarrow> apology)"

definition new_exchange :: "env \<Rightarrow> string \<Rightarrow> history \<Rightarrow> exchange" where
  "new_exchange e user_message chat_history =
     \<lparr>ex_timestamp = now e, ex_user_message = user_message,
      ex_bot_response = answer_for e user_message chat_history\<rparr>"

text \<open>
  The events a step has added to the trace.
\<close>

definition events_since :: "world \<Rightarrow> world \<Rightarrow> event list" where
  "events_since w w' = drop (length (trace w)) (trace w')"

text \<open>
  A field of a JSON object, or a variable of the environment, is missing or empty.
\<close>

definition missing :: "(string \<rightharpoonup> string) \<Rightarrow> string \<Rightarrow> bool" where
  "missing data k = (data k = None \<or> data k = Some [])"

text \<open>
  A parsed body lacks a field when it is an object in which the field is missing or
  empty, or when it is not an object at all.
\<close>

definition lacks :: "json \<Rightarrow> string \<Rightarrow> bool" where
  "lacks data k = (case data of JObject obj \<Rightarrow> missing obj k | _ \<Rightarrow> True)"

text \<open>
  A request during which neither the read nor the write of the database raises.
\<close>

definition no_fault :: "env \<Rightarrow> bool" where
  "no_fault e = (retrieve_fault e = None \<and> store_fault e = None)"

text \<open>
  A request is a send-message operation of session \<open>c\<close> when it posts to
  \<^verbatim>\<open>/chat\<close> an object with that session identifier and with both fields present
  and not empty.
\<close>

definition sends_to :: "string \<Rightarrow> request \<Rightarrow> bool" where
  "sends_to c req =
     (case req of
        GET_start_chat \<Rightarrow> False
      | POST_chat data \<Rightarrow>
          (case data of
             JObject obj \<Rightarrow>
               obj ''chat_id'' = Some c \<and> \<not> missing obj ''chat_id'' \<and>
               \<not> missing obj ''user_message''
           | _ \<Rightarrow> False))"

text \<open>
  The exchanges of session \<open>c\<close> in a run, read off the requests and the responses they
  got: one entry for each reply to a post of that session, with the clock reading of the
  request, the message sent and the answer returned. \<open>session_returned\<close> lists the
  histories those replies carried.
\<close>

fun exchange_of :: "string \<Rightarrow> env \<Rightarrow> request \<Rightarrow> response \<Rightarrow> history" where
  "exchange_of c e (POST_chat (JObject data)) (Reply bot_response returned, status) =
     (case (data ''chat_id'', data ''user_message'') of
        (Some chat_id, Some user_message) \<Rightarrow>
          if chat_id = c then
            [\<lparr>ex_timestamp = now e, ex_user_message = user_message,
              ex_bot_response = bot_response\<rparr>]
          else []
      | _ \<Rightarrow> [])"
| "exchange_of c e req r = []"

fun returned_of :: "string \<Rightarrow> request \<Rightarrow> response \<Rightarrow> history list" where
  "returned_of c (POST_chat (JObject data)) (Reply bot_response returned, status) =
     (if data ''chat_id'' = Some c then [returned] else [])"
| "returned_of c req r = []"

fun session_log :: "string \<Rightarrow> (env \<times> request) list \<Rightarrow> response list \<Rightarrow> history" where
  "session_log c ((e, req) # reqs) (r # rs) = exchange_of c e req r @ session_log c reqs rs"
| "session_log c reqs rs = []"

fun session_returned :: "string \<Rightarrow> (env \<times> request) list \<Rightarrow> response list \<Rightarrow> history list" where
  "session_returned c ((e, req) # reqs) (r # rs) = returned_of c req r @ session_returned c reqs rs"
| "session_returned c reqs rs = []"



subsection \<open>Example inputs\<close>

text \<open>
  A chain that answers, a chain that raises, the fields of a request, a body whose
  message is empty, a world with an empty database, an older entry of a history, and a
  start of the module without the access key.
\<close>

definition example_env :: env where
  "example_env =
     \<lparr>invoke = (\<lambda>q h. Inr [''answer'' \<mapsto> ''Use margins of one inch.'']),
      now = ''2024-05-01 10:00:00'',
      retrieve_fault = None,
      store_fault = None,
      urandom = 0\<rparr>"

definition failing_env :: env where
  "failing_env = example_env\<lparr>invoke := (\<lambda>q h. Inl (Exception ''connection refused''))\<rparr>"

definition example_data :: "string \<rightharpoonup> string" where
  "example_data =
     [''chat_id'' \<mapsto> ''abc'', ''user_message'' \<mapsto> ''What page margins for the proposal?'']"


definition new_world :: world where
  "new_world = \<lparr>model = Some 0, db = Map.empty, trace = []\<rparr>"

definition old_exchange :: exchange where
  "old_exchange =
     \<lparr>ex_timestamp = ''2024-04-30 09:00:00'', ex_user_message = ''Hello'',
      ex_bot_response = ''Hello, how can I help?''\<rparr>"

definition bad_startup :: startup where
  "bad_startup =
     \<lparr>getenv = [''SUPABASE_URL'' \<mapsto> ''https://db.example.org''],
      create_client_fault = None,
      new_ChatGroq = Inr 1,
      vector_store_fault = None,
      from_llm_fault = None\<rparr>"

section \<open>Properties\<close>

subsection \<open>Slices\<close>

lemma slice_from_neg: "0 < k \<Longrightarrow> slice_from (- int k) xs = drop (length xs - k) xs"
  by (auto simp add: slice_from_def Let_def max_def nat_diff_distrib')

lemma slice_from_50: "slice_from (- 50) xs = drop (length xs - 50) xs"
  using slice_from_neg [of 50 xs] by simp

lemma slice_50_append: "slice_from (- 50) (slice_from (- 50) xs @ ys) = slice_from (- 50) (xs @ ys)"
proof -
  have "length xs + length ys - (length xs - 50 + 50) + (length xs - 50) =
        length xs + length ys - 50"
    by arith
  then show ?thesis
    by (simp add: slice_from_50)
qed

lemma or_empty_Some [simp]: "or_empty (Some xs) = xs"
  by simp

subsection \<open>What one call returns and does\<close>

lemma generate_answer: "fst (generate_chatbot_response e q h w) = answer_for e q h"
  by (simp add: generate_chatbot_response_def answer_for_def Let_def split: sum.splits)

lemma answer_key_absent:
  "invoke e q h = Inr response \<Longrightarrow> response ''answer'' = None \<Longrightarrow>
   generate_chatbot_response e q h w =
     (apology,
      emit (Log ERROR (''Error generating chatbot response: '' @ str_error (KeyError (quoted ''answer''))))
        (emit (Invoke q h) w))"
  by (simp add: generate_chatbot_response_def invoke_answer_def Let_def)

lemma generate_world: "db (snd (generate_chatbot_response e q h w)) = db w"
  "model (snd (generate_chatbot_response e q h w)) = model w"
  by (simp_all add: generate_chatbot_response_def emit_def Let_def split: sum.splits)

lemma generate_trace:
  "trace (snd (generate_chatbot_response e m h w)) =
     trace w @ [Invoke m h] @
       (case invoke_answer e m h of
          Inl err \<Rightarrow> [Log ERROR (''Error generating chatbot response: '' @ str_error err)]
        | Inr a \<Rightarrow> [])"
  by (simp add: generate_chatbot_response_def emit_def Let_def split: sum.splits)

lemma process_result:
  "fst (process_user_message e chat_id user_message chat_history w) =
     (answer_for e user_message chat_history,
      slice_from (- 50) (chat_history @ [new_exchange e user_message chat_history]))"
  using generate_answer [of e user_message chat_history w]
  by (auto simp add: process_user_message_def new_exchange_def Let_def split: prod.splits)

lemma process_db:
  "db (snd (process_user_message e c m h w)) =
     (case store_fault e of
        None \<Rightarrow> (db w)(c \<mapsto> slice_from (- 50) (h @ [new_exchange e m h]))
      | Some err \<Rightarrow> db w)"
  using generate_answer [of e m h w] generate_world(1) [of e m h w]
  by (auto simp add: process_user_message_def store_chat_history_def new_exchange_def
        emit_def Let_def split: prod.splits option.splits sum.splits)

lemma process_model:
  "model (snd (process_user_message e c m h w)) = model w"
  using generate_world(2) [of e m h w]
  by (auto simp add: process_user_message_def store_chat_history_def
        emit_def Let_def split: prod.splits option.splits sum.splits)

lemma process_trace:
  "trace (snd (process_user_message e c m h w)) =
     trace w @ [Invoke m h] @
       (case invoke_answer e m h of
          Inl err \<Rightarrow> [Log ERROR (''Error generating chatbot response: '' @ str_error err)]
        | Inr a \<Rightarrow> []) @
       [Store c (slice_from (- 50) (h @ [new_exchange e m h])),
        (case store_fault e of
           None \<Rightarrow> Log INFO (''Chat history updated for chat_id: '' @ c)
         | Some err \<Rightarrow>
             Log ERROR (''Error storing chat history for chat_id '' @ c @ '': ''
                        @ str_error err))]"
  using generate_answer [of e m h w] generate_trace [of e m h w]
  by (auto simp add: process_user_message_def store_chat_history_def new_exchange_def
        emit_def Let_def split: prod.splits option.splits)

lemma retrieve_ok:
  "retrieve_fault e = None \<Longrightarrow>
   retrieve_chat_history e c w = (Inr (Some (or_empty (db w c))), emit (Retrieve c) w)"
  by (simp add: retrieve_chat_history_def emit_def Let_def split: option.splits)

lemma retrieve_raises:
  "retrieve_fault e = Some err \<Longrightarrow>
   retrieve_chat_history e c w = (Inl err, emit (Retrieve c) w)"
  by (simp add: retrieve_chat_history_def Let_def)

lemma missing_py_not: "missing data k = py_not (data k)"
  by (cases "data k") (simp_all add: missing_def)

lemma chat_invalid:
  "py_not (data ''chat_id'') \<or> py_not (data ''user_message'') \<Longrightarrow>
   chat e (JObject data) w =
     (Inr (Error ''chat_id and user_message are required'', 400),
      emit (Log WARNING ''chat_id or user_message is missing in request.'') w)"
  by (simp add: chat_def Let_def)

lemma chat_valid:
  assumes "data ''chat_id'' = Some c" "c \<noteq> []"
      and "data ''user_message'' = Some m" "m \<noteq> []"
      and "retrieve_fault e = None"
  shows "chat e (JObject data) w =
     (let h = or_empty (db w c);
          w1 = emit (Retrieve c) w;
          w2 = (if h = [] then
                  emit (Log WARNING (''No chat history found for chat_id: ''
                        @ c @ ''. Starting a new session.'')) w1
                else w1);
          (r, w3) = process_user_message e c m h w2
      in (Inr (Reply (fst r) (snd r), 200), w3))"
  using assms by (simp add: chat_def Let_def retrieve_ok split: prod.splits)

lemma chat_reply:
  assumes "data ''chat_id'' = Some c" "c \<noteq> []"
      and "data ''user_message'' = Some m" "m \<noteq> []"
      and "retrieve_fault e = None"
  shows "fst (chat e (JObject data) w) =
     Inr (Reply (answer_for e m (or_empty (db w c)))
        (slice_from (- 50) (or_empty (db w c) @ [new_exchange e m (or_empty (db w c))])),
      200)"
proof -
  let ?h = "or_empty (db w c)"
  let ?w2 = "if ?h = [] then
               emit (Log WARNING (''No chat history found for chat_id: ''
                     @ c @ ''. Starting a new session.'')) (emit (Retrieve c) w)
             else emit (Retrieve c) w"
  have "fst (chat e (JObject data) w) =
      Inr (Reply (fst (fst (process_user_message e c m ?h ?w2)))
             (snd (fst (process_user_message e c m ?h ?w2))), 200)"
    unfolding chat_valid [OF assms] by (simp add: Let_def split: prod.splits)
  then show ?thesis
    by (simp only: process_result fst_conv snd_conv)
qed

lemma chat_world:
  assumes "data ''chat_id'' = Some c" "c \<noteq> []"
      and "data ''user_message'' = Some m" "m \<noteq> []"
      and "retrieve_fault e = None"
  shows "snd (chat e (JObject data) w) =
     snd (process_user_message e c m (or_empty (db w c))
       (if or_empty (db w c) = [] then
          emit (Log WARNING (''No chat history found for chat_id: ''
                @ c @ ''. Starting a new session.'')) (emit (Retrieve c) w)
        else emit (Retrieve c) w))"
  unfolding chat_valid [OF assms] by (simp add: Let_def split: prod.splits)

lemma chat_db:
  assumes "data ''chat_id'' = Some c" "c \<noteq> []"
      and "data ''user_message'' = Some m" "m \<noteq> []"
      and "retrieve_fault e = None"
  shows "db (snd (chat e (JObject data) w)) =
     (case store_fault e of
        None \<Rightarrow> (db w)(c \<mapsto> slice_from (- 50)
                   (or_empty (db w c) @ [new_exchange e m (or_empty (db w c))]))
      | Some err \<Rightarrow> db w)"
  unfolding chat_world [OF assms] process_db by (simp add: emit_def split: option.splits)

lemma chat_trace:
  assumes "data ''chat_id'' = Some c" "c \<noteq> []"
      and "data ''user_message'' = Some m" "m \<noteq> []"
      and "retrieve_fault e = None"
  shows "events_since w (snd (chat e (JObject data) w)) =
     (let h = or_empty (db w c) in
      [Retrieve c] @
      (if h = [] then
         [Log WARNING (''No chat history found for chat_id: '' @ c
                       @ ''. Starting a new session.'')]
       else []) @
      [Invoke m h] @
      (case invoke_answer e m h of
         Inl err \<Rightarrow> [Log ERROR (''Error generating chatbot response: '' @ str_error err)]
       | Inr a \<Rightarrow> []) @
      [Store c (slice_from (- 50) (h @ [new_exchange e m h])),
       (case store_fault e of
          None \<Rightarrow> Log INFO (''Chat history updated for chat_id: '' @ c)
        | Some err \<Rightarrow>
            Log ERROR (''Error storing chat history for chat_id '' @ c @ '': ''
                       @ str_error err))])"
  unfolding chat_world [OF assms] process_trace events_since_def
  by (simp add: emit_def Let_def)

lemma chat_retrieve_raises:
  assumes "\<not> py_not (data ''chat_id'')" "\<not> py_not (data ''user_message'')"
      and "retrieve_fault e = Some err"
  shows "chat e (JObject data) w =
     (Inr (Error ''An error occurred while processing your request.'', 500),
      emit (Log ERROR (''Error in chat route: '' @ str_error err))
        (emit (Retrieve (the (data ''chat_id''))) w))"
  using assms by (simp add: chat_def Let_def retrieve_raises)

lemma chat_not_object:
  "\<forall>obj. data \<noteq> JObject obj \<Longrightarrow>
   chat e data w =
     (Inl (AttributeError (quoted (type_name data) @ '' object has no attribute ''
                           @ quoted ''get'')), w)"
  by (cases data) (simp_all add: chat_def)

lemma lacks_object: "lacks (JObject obj) k = py_not (obj k)"
  by (simp add: lacks_def missing_py_not)

lemma lacks_not_object: "\<forall>obj. data \<noteq> JObject obj \<Longrightarrow> lacks data k"
  by (cases data) (simp_all add: lacks_def)

lemma chat_status:
  "\<exists>b. fst (chat e (JObject data) w) =
     Inr (b, if py_not (data ''chat_id'') \<or> py_not (data ''user_message'') then 400
             else if retrieve_fault e = None then 200 else 500)"
proof (cases "py_not (data ''chat_id'') \<or> py_not (data ''user_message'')")
  case True
  then show ?thesis by (simp add: chat_invalid)
next
  case False
  then obtain c m where v: "data ''chat_id'' = Some c" "c \<noteq> []"
      "data ''user_message'' = Some m" "m \<noteq> []"
    by (cases "data ''chat_id''"; cases "data ''user_message''") auto
  show ?thesis
  proof (cases "retrieve_fault e")
    case None
    then show ?thesis using chat_reply [OF v None, of w] v by simp
  next
    case (Some err)
    then show ?thesis using chat_retrieve_raises [of data e err w] v by simp
  qed
qed

lemma answer_for_store_fault [simp]:
  "answer_for (e\<lparr>store_fault := x\<rparr>) m h = answer_for e m h"
  by (simp add: answer_for_def invoke_answer_def)

lemma new_exchange_store_fault [simp]:
  "new_exchange (e\<lparr>store_fault := x\<rparr>) m h = new_exchange e m h"
  by (simp add: new_exchange_def)

subsection \<open>The exchange appended by one message\<close>

text \<open>
  Claim C10. Whatever the input history and the message (the empty message included),
  the pair that \<^verbatim>\<open>process_user_message\<close> returns is consistent: the updated
  history is not empty, its last entry carries the message sent and the answer returned,
  and the entries before it are the last 49 entries of the input history, in their order.
\<close>

theorem process_user_message_consistent:
  assumes "process_user_message e chat_id user_message chat_history w =
             ((bot_response, updated), w')"
  shows "updated \<noteq> [] \<and>
         ex_user_message (last updated) = user_message \<and>
         ex_bot_response (last updated) = bot_response \<and>
         butlast updated = drop (length chat_history - 49) chat_history"
proof -
  have r: "(bot_response, updated) =
     (answer_for e user_message chat_history,
      slice_from (- 50) (chat_history @ [new_exchange e user_message chat_history]))"
    using process_result [of e chat_id user_message chat_history w] assms by simp
  then have b: "bot_response = answer_for e user_message chat_history"
    by simp
  from r have "updated =
      drop (length chat_history - 49) chat_history @ [new_exchange e user_message chat_history]"
    by (simp add: slice_from_50 Suc_diff_le)
  then show ?thesis
    by (simp add: b new_exchange_def)
qed

theorem process_user_message_consistent_witness:
  "fst (process_user_message example_env ''abc'' ''Hi'' (replicate 50 old_exchange) new_world)
     = (''Use margins of one inch.'',
        replicate 49 old_exchange @
          [\<lparr>ex_timestamp = ''2024-05-01 10:00:00'', ex_user_message = ''Hi'',
            ex_bot_response = ''Use margins of one inch.''\<rparr>]) \<and>
   butlast (snd (fst (process_user_message example_env ''abc'' ''Hi''
      (replicate 50 old_exchange) new_world))) = replicate 49 old_exchange"
  using process_user_message_consistent [of example_env "''abc''" "''Hi''"
      "replicate 50 old_exchange" new_world
      "fst (fst (process_user_message example_env ''abc'' ''Hi'' (replicate 50 old_exchange) new_world))"
      "snd (fst (process_user_message example_env ''abc'' ''Hi'' (replicate 50 old_exchange) new_world))"
      "snd (process_user_message example_env ''abc'' ''Hi'' (replicate 50 old_exchange) new_world)"]
  by (simp add: process_result answer_for_def invoke_answer_def new_exchange_def example_env_def
        slice_from_50)

subsection \<open>Validation\<close>




subsection \<open>Failures of the chain and of the database\<close>

text \<open>
  Claim C3. For a valid request whose history is read without failure, when the call of
  the retrieval chain raises, the route still answers with status 200: the answer is the
  fixed apology, the history returned is the stored one with an entry carrying the
  apology appended (cut to its last 50), that history is what is passed to
  \<^verbatim>\<open>store_chat_history\<close>, and it is what the database holds afterwards when the
  write does not fail.
\<close>

theorem pipeline_failure_gives_apology:
  assumes "data ''chat_id'' = Some c" "c \<noteq> []"
      and "data ''user_message'' = Some m" "m \<noteq> []"
      and "retrieve_fault e = None"
      and "invoke e m (or_empty (db w c)) = Inl err"
  shows "fst (chat e (JObject data) w) =
           Inr (Reply apology
              (slice_from (- 50) (or_empty (db w c) @
                 [\<lparr>ex_timestamp = now e, ex_user_message = m, ex_bot_response = apology\<rparr>])),
            200) \<and>
         Store c (slice_from (- 50) (or_empty (db w c) @
                 [\<lparr>ex_timestamp = now e, ex_user_message = m, ex_bot_response = apology\<rparr>]))
           \<in> set (events_since w (snd (chat e (JObject data) w))) \<and>
         (store_fault e = None \<longrightarrow>
            db (snd (chat e (JObject data) w)) c =
              Some (slice_from (- 50) (or_empty (db w c) @
                 [\<lparr>ex_timestamp = now e, ex_user_message = m, ex_bot_response = apology\<rparr>])))"
proof -
  have a: "answer_for e m (or_empty (db w c)) = apology"
    using assms(6) by (simp add: answer_for_def invoke_answer_def)
  have x: "new_exchange e m (or_empty (db w c)) =
             \<lparr>ex_timestamp = now e, ex_user_message = m, ex_bot_response = apology\<rparr>"
    by (simp add: new_exchange_def a)
  show ?thesis
    using chat_reply [OF assms(1-5), of w] chat_trace [OF assms(1-5), of w]
      chat_db [OF assms(1-5), of w]
    by (simp add: a x Let_def)
qed

theorem pipeline_failure_gives_apology_witness:
  "fst (chat failing_env (JObject example_data) new_world) =
     Inr (Reply apology
        [\<lparr>ex_timestamp = ''2024-05-01 10:00:00'',
          ex_user_message = ''What page margins for the proposal?'',
          ex_bot_response = apology\<rparr>], 200) \<and>
   Store ''abc''
        [\<lparr>ex_timestamp = ''2024-05-01 10:00:00'',
          ex_user_message = ''What page margins for the proposal?'',
          ex_bot_response = apology\<rparr>]
     \<in> set (events_since new_world (snd (chat failing_env (JObject example_data) new_world))) \<and>
   db (snd (chat failing_env (JObject example_data) new_world)) ''abc'' =
     Some [\<lparr>ex_timestamp = ''2024-05-01 10:00:00'',
          ex_user_message = ''What page margins for the proposal?'',
          ex_bot_response = apology\<rparr>]"
  using pipeline_failure_gives_apology [of example_data "''abc''"
      "''What page margins for the proposal?''" failing_env new_world
      "Exception ''connection refused''"]
  by (simp add: example_data_def failing_env_def example_env_def new_world_def slice_from_50)

text \<open>
  Claim C4. For a valid request whose history is read without failure, when
  \<^verbatim>\<open>store_chat_history\<close> raises, the exception is caught (the last event is the
  error line of the logger) and the response is the one of the success case: status 200,
  the computed answer and the updated, truncated history.
\<close>

theorem store_failure_keeps_response:
  assumes "data ''chat_id'' = Some c" "c \<noteq> []"
      and "data ''user_message'' = Some m" "m \<noteq> []"
      and "retrieve_fault e = None"
      and "store_fault e = Some err"
  shows "fst (chat e (JObject data) w) =
           Inr (Reply (answer_for e m (or_empty (db w c)))
              (slice_from (- 50) (or_empty (db w c) @ [new_exchange e m (or_empty (db w c))])),
            200) \<and>
         fst (chat e (JObject data) w) = fst (chat (e\<lparr>store_fault := None\<rparr>) (JObject data) w) \<and>
         last (events_since w (snd (chat e (JObject data) w))) =
           Log ERROR (''Error storing chat history for chat_id '' @ c @ '': '' @ str_error err)"
proof -
  have ok: "retrieve_fault (e\<lparr>store_fault := None\<rparr>) = None"
    using assms(5) by simp
  show ?thesis
    using chat_reply [OF assms(1-5), of w] chat_reply [OF assms(1-4) ok, of w]
      chat_trace [OF assms(1-5), of w] assms(6)
    by (simp add: Let_def)
qed

theorem store_failure_keeps_response_witness:
  "fst (chat (example_env\<lparr>store_fault := Some (Exception ''write failed'')\<rparr>)
          (JObject example_data) new_world) =
     Inr (Reply ''Use margins of one inch.''
        [\<lparr>ex_timestamp = ''2024-05-01 10:00:00'',
          ex_user_message = ''What page margins for the proposal?'',
          ex_bot_response = ''Use margins of one inch.''\<rparr>], 200) \<and>
   fst (chat (example_env\<lparr>store_fault := Some (Exception ''write failed'')\<rparr>)
          (JObject example_data) new_world) =
   fst (chat (example_env\<lparr>store_fault := None\<rparr>) (JObject example_data) new_world) \<and>
   last (events_since new_world
          (snd (chat (example_env\<lparr>store_fault := Some (Exception ''write failed'')\<rparr>)
             (JObject example_data) new_world))) =
     Log ERROR ''Error storing chat history for chat_id abc: write failed''"
proof -
  let ?e = "example_env\<lparr>store_fault := Some (Exception ''write failed'')\<rparr>"
  have "fst (chat ?e (JObject example_data) new_world) =
           Inr (Reply (answer_for ?e ''What page margins for the proposal?'' (or_empty (db new_world ''abc'')))
              (slice_from (- 50) (or_empty (db new_world ''abc'') @
                 [new_exchange ?e ''What page margins for the proposal?''
                    (or_empty (db new_world ''abc''))])),
            200) \<and>
         fst (chat ?e (JObject example_data) new_world) =
           fst (chat (?e\<lparr>store_fault := None\<rparr>) (JObject example_data) new_world) \<and>
         last (events_since new_world (snd (chat ?e (JObject example_data) new_world))) =
           Log ERROR (''Error storing chat history for chat_id '' @ ''abc'' @ '': ''
                      @ str_error (Exception ''write failed''))"
    by (rule store_failure_keeps_response)
       (simp_all add: example_data_def example_env_def)
  moreover have "answer_for ?e ''What page margins for the proposal?'' [] =
      ''Use margins of one inch.''"
    by (simp add: answer_for_def invoke_answer_def example_env_def)
  ultimately show ?thesis
    by (auto simp add: new_world_def new_exchange_def slice_from_50 example_env_def)
qed

text \<open>
  Claim C6. For a session identifier with no stored history, reading the history gives
  the empty list and not an error, and a message sent to that identifier is handled as the
  first one of a new session: the reply has status 200 and a history of that single
  exchange, which is what the database holds afterwards when the write does not fail.
\<close>

theorem unknown_session_starts_empty:
  assumes "db w c = None"
      and "data ''chat_id'' = Some c" "c \<noteq> []"
      and "data ''user_message'' = Some m" "m \<noteq> []"
      and "retrieve_fault e = None"
  shows "fst (retrieve_chat_history e c w) = Inr (Some []) \<and>
         fst (chat e (JObject data) w) =
           Inr (Reply (answer_for e m []) [new_exchange e m []], 200) \<and>
         (store_fault e = None \<longrightarrow>
            db (snd (chat e (JObject data) w)) c = Some [new_exchange e m []])"
  using chat_reply [OF assms(2-6), of w] chat_db [OF assms(2-6), of w] assms(1)
    retrieve_ok [OF assms(6), of c w]
  by (simp add: slice_from_50)

theorem unknown_session_starts_empty_witness:
  "fst (retrieve_chat_history example_env ''abc'' new_world) = Inr (Some []) \<and>
   fst (chat example_env (JObject example_data) new_world) =
     Inr (Reply ''Use margins of one inch.''
        [\<lparr>ex_timestamp = ''2024-05-01 10:00:00'',
          ex_user_message = ''What page margins for the proposal?'',
          ex_bot_response = ''Use margins of one inch.''\<rparr>], 200) \<and>
   db (snd (chat example_env (JObject example_data) new_world)) ''abc'' =
     Some [\<lparr>ex_timestamp = ''2024-05-01 10:00:00'',
          ex_user_message = ''What page margins for the proposal?'',
          ex_bot_response = ''Use margins of one inch.''\<rparr>]"
  using unknown_session_starts_empty [of new_world "''abc''" example_data
      "''What page margins for the proposal?''" example_env]
  by (simp add: example_data_def example_env_def new_world_def
        answer_for_def invoke_answer_def new_exchange_def)

text \<open>
  Claim C9. A failure of the retrieval chain never gives the 500 response. The route
  returns its own 500 response exactly when the body is an object with both fields and the
  read of the history raises, whatever the chain does; the request is answered with
  status 500 exactly then or when the body is not an object (the exception of
  \<^verbatim>\<open>data.get\<close> leaves the route); in both cases the chain has not been invoked at
  all. An exception of the chain is absorbed by \<^verbatim>\<open>generate_chatbot_response\<close>,
  which logs it and returns the apology; and the apology is not the text of the 500 body.
\<close>

theorem pipeline_failure_never_500:
  "(fst (chat e data w) =
      Inr (Error ''An error occurred while processing your request.'', 500) \<longleftrightarrow>
      \<not> lacks data ''chat_id'' \<and> \<not> lacks data ''user_message'' \<and>
      retrieve_fault e \<noteq> None) \<and>
   (snd (fst (handle e (POST_chat data) w)) = 500 \<longleftrightarrow>
      (\<forall>obj. data \<noteq> JObject obj) \<or>
      (\<not> lacks data ''chat_id'' \<and> \<not> lacks data ''user_message'' \<and>
       retrieve_fault e \<noteq> None)) \<and>
   (snd (fst (handle e (POST_chat data) w)) = 500 \<longrightarrow>
      (\<forall>q h. Invoke q h \<notin> set (events_since w (snd (handle e (POST_chat data) w))))) \<and>
   (\<forall>err. invoke e q h = Inl err \<longrightarrow>
      generate_chatbot_response e q h w0 =
        (apology,
         emit (Log ERROR (''Error generating chatbot response: '' @ str_error err))
           (emit (Invoke q h) w0))) \<and>
   apology \<noteq> ''An error occurred while processing your request.''"
proof -
  have g: "\<forall>err. invoke e q h = Inl err \<longrightarrow>
      generate_chatbot_response e q h w0 =
        (apology,
         emit (Log ERROR (''Error generating chatbot response: '' @ str_error err))
           (emit (Invoke q h) w0))"
    by (simp add: generate_chatbot_response_def invoke_answer_def Let_def)
  have d: "apology \<noteq> ''An error occurred while processing your request.''"
    by (simp add: apology_def)
  show ?thesis
  proof (cases "\<exists>obj. data = JObject obj")
    case False
    then have n: "\<forall>obj. data \<noteq> JObject obj" by simp
    then have l: "lacks data ''chat_id''" by (rule lacks_not_object)
    show ?thesis
      using n l g d by (simp add: chat_not_object handle_def events_since_def)
  next
    case True
    then obtain obj where o: "data = JObject obj" by blast
    show ?thesis
    proof (cases "py_not (obj ''chat_id'') \<or> py_not (obj ''user_message'')")
      case True
      then show ?thesis
        using g d by (auto simp add: o chat_invalid handle_def lacks_object)
    next
      case False
      then obtain c m where v: "obj ''chat_id'' = Some c" "c \<noteq> []"
          "obj ''user_message'' = Some m" "m \<noteq> []"
        by (cases "obj ''chat_id''"; cases "obj ''user_message''") auto
      show ?thesis
      proof (cases "retrieve_fault e")
        case None
        obtain r w1 where c: "chat e (JObject obj) w = (r, w1)"
          by (cases "chat e (JObject obj) w")
        then have "r = Inr (Reply (answer_for e m (or_empty (db w c)))
          (slice_from (- 50) (or_empty (db w c) @ [new_exchange e m (or_empty (db w c))])), 200)"
          using chat_reply [OF v None, of w] by simp
        then show ?thesis
          using g d None c by (simp add: o handle_def)
      next
        case (Some err)
        have "chat e (JObject obj) w =
            (Inr (Error ''An error occurred while processing your request.'', 500),
             emit (Log ERROR (''Error in chat route: '' @ str_error err))
               (emit (Retrieve (the (obj ''chat_id''))) w))"
          using v Some by (intro chat_retrieve_raises) simp_all
        then show ?thesis
          using g d Some v
          by (simp add: o handle_def lacks_object emit_def events_since_def)
      qed
    qed
  qed
qed

theorem pipeline_failure_never_500_witness:
  "snd (fst (handle failing_env (POST_chat (JObject example_data)) new_world)) \<noteq> 500 \<and>
   generate_chatbot_response failing_env ''Hi'' [] new_world =
     (apology,
      emit (Log ERROR ''Error generating chatbot response: connection refused'')
        (emit (Invoke ''Hi'' []) new_world))"
  using pipeline_failure_never_500 [of failing_env "JObject example_data" new_world
      "''Hi''" "[]" new_world]
  by (simp add: failing_env_def example_env_def example_data_def lacks_def missing_def)

subsection \<open>A session over many messages\<close>

lemma start_chat_db: "db (snd (start_chat e w)) = db w"
  by (simp add: start_chat_def start_new_chat_def emit_def Let_def)

lemma handle_step:
  assumes "no_fault e"
  shows "let (r, w1) = handle e req w in
           (exchange_of c e req r = [] \<and> returned_of c req r = [] \<and> db w1 c = db w c) \<or>
           (\<exists>x. exchange_of c e req r = [x] \<and>
                returned_of c req r = [slice_from (- 50) (or_empty (db w c) @ [x])] \<and>
                db w1 c = Some (slice_from (- 50) (or_empty (db w c) @ [x])))"
proof (cases req)
  case GET_start_chat
  then show ?thesis
    by (simp add: handle_def start_chat_def start_new_chat_def emit_def Let_def)
next
  case (POST_chat body)
  show ?thesis
  proof (cases "\<exists>obj. body = JObject obj")
    case False
    then have n: "\<forall>obj. body \<noteq> JObject obj" by simp
    then have "exchange_of c e (POST_chat body) r = []" "returned_of c (POST_chat body) r = []"
      for r
      by (cases body; simp)+
    then show ?thesis using POST_chat n
      by (simp add: handle_def chat_not_object)
  next
    case True
    then obtain data where body: "body = JObject data" by blast
    note POST_chat = POST_chat [unfolded body]
  show ?thesis
  proof (cases "py_not (data ''chat_id'') \<or> py_not (data ''user_message'')")
    case True
    then show ?thesis using POST_chat
      by (simp add: handle_def chat_invalid emit_def)
  next
    case False
    then obtain c' m where v: "data ''chat_id'' = Some c'" "c' \<noteq> []"
      "data ''user_message'' = Some m" "m \<noteq> []"
      by (cases "data ''chat_id''"; cases "data ''user_message''") auto
    have rf: "retrieve_fault e = None" and sf: "store_fault e = None"
      using assms by (simp_all add: no_fault_def)
    obtain r w1 where h: "chat e (JObject data) w = (r, w1)" by (cases "chat e (JObject data) w")
    have r: "r = Inr (Reply (answer_for e m (or_empty (db w c')))
        (slice_from (- 50) (or_empty (db w c') @ [new_exchange e m (or_empty (db w c'))])), 200)"
      using chat_reply [OF v rf, of w] h by simp
    have d: "db w1 = (db w)(c' \<mapsto> slice_from (- 50)
                   (or_empty (db w c') @ [new_exchange e m (or_empty (db w c'))]))"
      using chat_db [OF v rf, of w] h sf by simp
    show ?thesis using POST_chat h r d v
      by (simp add: handle_def new_exchange_def)
  qed
  qed
qed

lemma serve_Cons:
  "serve ((e, req) # rest) w =
     (fst (handle e req w) # fst (serve rest (snd (handle e req w))),
      snd (serve rest (snd (handle e req w))))"
  by (simp add: Let_def split: prod.splits)

lemma serve_session:
  assumes "\<forall>(e, req) \<in> set reqs. no_fault e"
  shows "(session_log c reqs (fst (serve reqs w)) = [] \<longrightarrow>
            db (snd (serve reqs w)) c = db w c) \<and>
         (session_log c reqs (fst (serve reqs w)) \<noteq> [] \<longrightarrow>
            db (snd (serve reqs w)) c =
              Some (slice_from (- 50)
                     (or_empty (db w c) @ session_log c reqs (fst (serve reqs w))))) \<and>
         length (session_returned c reqs (fst (serve reqs w))) =
           length (session_log c reqs (fst (serve reqs w))) \<and>
         (\<forall>k < length (session_log c reqs (fst (serve reqs w))).
            session_returned c reqs (fst (serve reqs w)) ! k =
              slice_from (- 50)
                (or_empty (db w c) @ take (Suc k) (session_log c reqs (fst (serve reqs w)))))"
  using assms
proof (induction reqs arbitrary: w)
  case Nil
  then show ?case by simp
next
  case (Cons a reqs)
  obtain e req where a: "a = (e, req)" by (cases a)
  obtain r w1 where h: "handle e req w = (r, w1)" by (cases "handle e req w")
  have nf: "no_fault e" and rest: "\<forall>(e, req) \<in> set reqs. no_fault e"
    using Cons.prems a by auto
  note IH = Cons.IH [OF rest, of w1]
  let ?rs = "fst (serve reqs w1)"
  let ?L = "session_log c reqs ?rs"
  let ?R = "session_returned c reqs ?rs"
  have s: "serve (a # reqs) w = (r # ?rs, snd (serve reqs w1))"
    unfolding a serve_Cons h by simp
  have sl: "session_log c (a # reqs) (fst (serve (a # reqs) w)) = exchange_of c e req r @ ?L"
    unfolding s by (simp add: a)
  have sr: "session_returned c (a # reqs) (fst (serve (a # reqs) w)) = returned_of c req r @ ?R"
    unfolding s by (simp add: a)
  have sd: "snd (serve (a # reqs) w) = snd (serve reqs w1)"
    unfolding s by simp
  from handle_step [OF nf, of req w c] h
  consider
    (none) "exchange_of c e req r = []" "returned_of c req r = []" "db w1 c = db w c"
  | (one) x where "exchange_of c e req r = [x]"
      "returned_of c req r = [slice_from (- 50) (or_empty (db w c) @ [x])]"
      "db w1 c = Some (slice_from (- 50) (or_empty (db w c) @ [x]))"
    by auto
  then show ?case
  proof cases
    case none
    then show ?thesis unfolding sl sr sd using IH by simp
  next
    case one
    have k: "\<forall>k < Suc (length ?L).
        (slice_from (- 50) (or_empty (db w c) @ [x]) # ?R) ! k =
          slice_from (- 50) (or_empty (db w c) @ take (Suc k) (x # ?L))"
    proof (intro allI impI)
      fix k assume "k < Suc (length ?L)"
      show "(slice_from (- 50) (or_empty (db w c) @ [x]) # ?R) ! k =
          slice_from (- 50) (or_empty (db w c) @ take (Suc k) (x # ?L))"
      proof (cases k)
        case 0
        then show ?thesis by simp
      next
        case (Suc j)
        then have "j < length ?L" using \<open>k < Suc (length ?L)\<close> by simp
        then have "?R ! j = slice_from (- 50)
            (slice_from (- 50) (or_empty (db w c) @ [x]) @ take (Suc j) ?L)"
          using IH one(3) by simp
        then show ?thesis using Suc by (simp add: slice_50_append)
      qed
    qed
    have d: "db (snd (serve reqs w1)) c =
        Some (slice_from (- 50) (or_empty (db w c) @ x # ?L))"
    proof (cases "?L = []")
      case True
      then show ?thesis using IH one(3) by simp
    next
      case False
      then have "db (snd (serve reqs w1)) c =
         Some (slice_from (- 50) (slice_from (- 50) (or_empty (db w c) @ [x]) @ ?L))"
        using IH one(3) by simp
      then show ?thesis by (simp add: slice_50_append)
    qed
    show ?thesis unfolding sl sr sd using IH k d one by simp
  qed
qed

lemma exchange_count:
  assumes "no_fault e"
  shows "length (exchange_of c e req (fst (handle e req w))) = (if sends_to c req then 1 else 0)"
proof (cases req)
  case GET_start_chat
  then show ?thesis
    by (simp add: handle_def start_chat_def start_new_chat_def sends_to_def Let_def)
next
  case (POST_chat body)
  show ?thesis
  proof (cases "\<exists>obj. body = JObject obj")
    case False
    then have n: "\<forall>obj. body \<noteq> JObject obj" by simp
    then have "exchange_of c e (POST_chat body) r = []" for r
      by (cases body) simp_all
    moreover have "\<not> sends_to c (POST_chat body)"
      using n by (cases body) (simp_all add: sends_to_def)
    ultimately show ?thesis using POST_chat by simp
  next
    case True
    then obtain data where body: "body = JObject data" by blast
    note POST_chat = POST_chat [unfolded body]
  show ?thesis
  proof (cases "py_not (data ''chat_id'') \<or> py_not (data ''user_message'')")
    case True
    then show ?thesis using POST_chat
      by (auto simp add: handle_def chat_invalid sends_to_def missing_py_not)
  next
    case False
    then obtain c' m where v: "data ''chat_id'' = Some c'" "c' \<noteq> []"
      "data ''user_message'' = Some m" "m \<noteq> []"
      by (cases "data ''chat_id''"; cases "data ''user_message''") auto
    have rf: "retrieve_fault e = None"
      using assms by (simp add: no_fault_def)
    obtain r w1 where h: "chat e (JObject data) w = (r, w1)"
      by (cases "chat e (JObject data) w")
    then have "r = Inr (Reply (answer_for e m (or_empty (db w c')))
        (slice_from (- 50) (or_empty (db w c') @ [new_exchange e m (or_empty (db w c'))])), 200)"
      using chat_reply [OF v rf, of w] by simp
    then show ?thesis using POST_chat h v
      by (simp add: handle_def sends_to_def missing_def)
  qed
  qed
qed

lemma session_log_length:
  assumes "\<forall>(e, req) \<in> set reqs. no_fault e"
  shows "length (session_log c reqs (fst (serve reqs w))) =
         length (filter (\<lambda>(e, req). sends_to c req) reqs)"
  using assms
proof (induction reqs arbitrary: w)
  case Nil
  then show ?case by simp
next
  case (Cons a reqs)
  obtain e req where a: "a = (e, req)" by (cases a)
  have nf: "no_fault e" and rest: "\<forall>(e, req) \<in> set reqs. no_fault e"
    using Cons.prems a by auto
  have "session_log c (a # reqs) (fst (serve (a # reqs) w)) =
        exchange_of c e req (fst (handle e req w)) @
        session_log c reqs (fst (serve reqs (snd (handle e req w))))"
    unfolding a serve_Cons by simp
  then show ?case
    using Cons.IH [OF rest, of "snd (handle e req w)"] exchange_count [OF nf, of c req w]
    by (simp add: a)
qed

text \<open>
  Claim C1. Take any run of requests during which the database neither fails to read nor
  to write, and a session \<open>c\<close> with nothing stored at the start. Let \<open>N\<close> be the number
  of send-message operations of the session in the run. Then the session's log has
  \<open>N\<close> exchanges; the history stored at the end is the last 50 of them in the order
  they were sent, so its length is \<open>min N 50\<close>; and the history returned by the
  \<open>k+1\<close>-th operation is the last 50 of the first \<open>k+1\<close> exchanges, of length
  \<open>min (k+1) 50\<close>. Requests of other sessions, rejected requests, posts whose body
  is not an object and \<^verbatim>\<open>/start_chat\<close> calls may come in between.
\<close>

theorem history_is_last_50:
  assumes "\<forall>(e, req) \<in> set reqs. no_fault e"
      and "db w c = None"
      and "serve reqs w = (rs, w')"
  shows "length (session_log c reqs rs) =
           length (filter (\<lambda>(e, req). sends_to c req) reqs) \<and>
         or_empty (db w' c) = slice_from (- 50) (session_log c reqs rs) \<and>
         length (or_empty (db w' c)) = min (length (session_log c reqs rs)) 50 \<and>
         length (session_returned c reqs rs) = length (session_log c reqs rs) \<and>
         (\<forall>k < length (session_log c reqs rs).
            session_returned c reqs rs ! k =
              slice_from (- 50) (take (Suc k) (session_log c reqs rs)) \<and>
            length (session_returned c reqs rs ! k) = min (Suc k) 50)"
proof -
  have rs: "fst (serve reqs w) = rs" and w': "snd (serve reqs w) = w'"
    using assms(3) by simp_all
  have e0: "or_empty (db w c) = []"
    using assms(2) by simp
  note S = serve_session [OF assms(1), of c w, unfolded rs w' e0 append_Nil]
  have p: "or_empty (db w' c) = slice_from (- 50) (session_log c reqs rs)"
  proof (cases "session_log c reqs rs = []")
    case True
    then show ?thesis using S assms(2) by (simp add: slice_from_50)
  next
    case False
    then show ?thesis using S by simp
  qed
  have l: "length (or_empty (db w' c)) = min (length (session_log c reqs rs)) 50"
    unfolding p by (simp add: slice_from_50)
  have n: "length (session_returned c reqs rs) = length (session_log c reqs rs)"
    using S by simp
  have q: "session_returned c reqs rs ! k =
              slice_from (- 50) (take (Suc k) (session_log c reqs rs)) \<and>
           length (session_returned c reqs rs ! k) = min (Suc k) 50"
    if "k < length (session_log c reqs rs)" for k
  proof -
    have "session_returned c reqs rs ! k =
              slice_from (- 50) (take (Suc k) (session_log c reqs rs))"
      using S that by simp
    moreover have "length (slice_from (- 50) (take (Suc k) (session_log c reqs rs))) =
        min (Suc k) 50"
      using that by (simp add: slice_from_50)
    ultimately show ?thesis by simp
  qed
  have c: "length (session_log c reqs rs) =
           length (filter (\<lambda>(e, req). sends_to c req) reqs)"
    using session_log_length [OF assms(1), of c w] by (simp add: rs)
  from c p l n q show ?thesis by blast
qed

theorem history_is_last_50_witness:
  "length (or_empty (db (snd (serve (replicate 51 (example_env, POST_chat (JObject example_data)))
      new_world)) ''abc'')) = 50"
proof -
  let ?reqs = "replicate 51 (example_env, POST_chat (JObject example_data))"
  have f: "\<forall>(e, req) \<in> set ?reqs. no_fault e"
    by (simp add: no_fault_def example_env_def)
  have n: "db new_world ''abc'' = None"
    by (simp add: new_world_def)
  have s: "sends_to ''abc'' (POST_chat (JObject example_data))"
    by (simp add: sends_to_def example_data_def missing_def)
  have "length (or_empty (db (snd (serve ?reqs new_world)) ''abc'')) =
        min (length (filter (\<lambda>(e, req). sends_to ''abc'' req) ?reqs)) 50"
    using history_is_last_50 [OF f n, of "fst (serve ?reqs new_world)" "snd (serve ?reqs new_world)"]
    by auto
  then show ?thesis
    using s by simp
qed

subsection \<open>Session identifiers\<close>
















subsection \<open>Start of the module\<close>

text \<open>
  Claim C8. When the URL or the access key of the database is absent from the environment
  (or is the empty string), loading the module raises \<^verbatim>\<open>ValueError\<close> after one
  error line of the logger: no client is created, no model is loaded, and no request is
  served, whatever requests are waiting.
\<close>

theorem missing_credentials_abort_startup:
  assumes "missing (getenv s) ''SUPABASE_URL'' \<or> missing (getenv s) ''SUPABASE_KEY''"
  shows "main s reqs w = (Inl (ValueError not_set), emit (Log ERROR not_set) w)"
  using assms by (simp add: main_def module_init_def missing_py_not Let_def)

theorem missing_credentials_abort_startup_witness:
  "main bad_startup [(example_env, POST_chat (JObject example_data))] new_world =
     (Inl (ValueError not_set), emit (Log ERROR not_set) new_world)"
  using missing_credentials_abort_startup [of bad_startup
      "[(example_env, POST_chat (JObject example_data))]" new_world]
  by (simp add: bad_startup_def missing_def)

subsection \<open>The model handle, in one thread\<close>

text \<open>
  What \<^verbatim>\<open>load_model\<close> does when its calls follow one another, as at the start of
  the module: the first call takes the lock and constructs the instance, and a later call
  returns that instance without taking the lock or constructing anything, whatever the
  constructor would give then. Calls that overlap in time are outside this model.
\<close>

lemma load_model_cached: "model w = Some m \<Longrightarrow> load_model s w = (Inr m, w)"
  by (simp add: load_model_def)

lemma load_model_first:
  assumes "model w = None" and "new_ChatGroq s = Inr m"
  shows "fst (load_model s w) = Inr m"
    and "model (snd (load_model s w)) = Some m"
    and "events_since w (snd (load_model s w)) =
           [Acquire_lock, ChatGroq, Log INFO ''Model loaded successfully.'', Release_lock]"
  using assms by (simp_all add: load_model_def emit_def events_since_def Let_def)

lemma load_model_raises:
  assumes "model w = None" and "new_ChatGroq s = Inl err"
  shows "fst (load_model s w) = Inl err"
    and "model (snd (load_model s w)) = None"
    and "events_since w (snd (load_model s w)) =
           [Acquire_lock, ChatGroq, Release_lock,
            Log ERROR (''Error loading model: '' @ str_error err)]"
  using assms by (simp_all add: load_model_def emit_def events_since_def Let_def)

lemma load_model_again:
  assumes "model w = None" and "new_ChatGroq s = Inr m"
  shows "load_model s' (snd (load_model s w)) = (Inr m, snd (load_model s w))"
  using load_model_first(2) [OF assms] by (rule load_model_cached)

end
